theory Spec2Isabelle
  imports Main
begin

section \<open>Strings\<close>

text \<open>
  A JavaScript string is modelled as a \<open>char list\<close> of its code units; the model covers
  code units below 256.  Where the source decodes bytes read from a file
  (\<open>buffer.toString('utf-8')\<close>), bytes and code units are identified, which is exact
  on ASCII content.
\<close>

definition newline :: char where
  "newline = CHR 0x0A"

text \<open>The class \<open>\s\<close> of a regular expression, which is also what \<open>trim\<close> strips.\<close>

definition is_space :: "char \<Rightarrow> bool" where
  "is_space c \<longleftrightarrow>
     c \<in> set [CHR 0x09, CHR 0x0A, CHR 0x0B, CHR 0x0C, CHR 0x0D, CHR 0x20, CHR 0xA0]"


text \<open>
  Case folding of the flag \<open>i\<close>: only the ASCII capitals fold onto the letters
  a pattern of this program is written in.
\<close>

definition lower :: "char \<Rightarrow> char" where
  "lower c =
     (case map_of (zip ''ABCDEFGHIJKLMNOPQRSTUVWXYZ'' ''abcdefghijklmnopqrstuvwxyz'') c of
        Some d \<Rightarrow> d
      | None \<Rightarrow> c)"

definition trimStart :: "string \<Rightarrow> string" where
  "trimStart s = dropWhile is_space s"

definition trimEnd :: "string \<Rightarrow> string" where
  "trimEnd s = rev (dropWhile is_space (rev s))"

definition trim :: "string \<Rightarrow> string" where
  "trim s = trimEnd (trimStart s)"

text \<open>\<open>s.split(c)\<close> for a one-character separator: never the empty list.\<close>

fun split_on :: "char \<Rightarrow> string \<Rightarrow> string list" where
  "split_on c [] = [[]]"
| "split_on c (x # xs) =
     (if x = c then [] # split_on c xs
      else (case split_on c xs of
              [] \<Rightarrow> [[x]]
            | l # ls \<Rightarrow> (x # l) # ls))"

text \<open>\<open>ls.join(sep)\<close>.\<close>

fun join :: "string \<Rightarrow> string list \<Rightarrow> string" where
  "join sep [] = []"
| "join sep [l] = l"
| "join sep (l # m # ls) = l @ sep @ join sep (m # ls)"

fun startsWith :: "string \<Rightarrow> string \<Rightarrow> bool" where
  "startsWith s [] = True"
| "startsWith [] (p # ps) = False"
| "startsWith (c # cs) (p # ps) = (c = p \<and> startsWith cs ps)"

text \<open>
  An unanchored search: the matcher \<open>m\<close> is tried at every position of the string,
  the end included.
\<close>

fun search :: "(string \<Rightarrow> bool) \<Rightarrow> string \<Rightarrow> bool" where
  "search m [] = m []"
| "search m (c # cs) = (m (c # cs) \<or> search m cs)"

definition includes_str :: "string \<Rightarrow> string \<Rightarrow> bool" where
  "includes_str s p = search (\<lambda>t. startsWith t p) s"

text \<open>
  A literal of a pattern with the flag \<open>i\<close>, written in lower case, matched at the
  start of the string; the result is what follows the match.
\<close>

fun match_lit :: "string \<Rightarrow> string \<Rightarrow> string option" where
  "match_lit [] s = Some s"
| "match_lit (p # ps) [] = None"
| "match_lit (p # ps) (c # cs) = (if lower c = p then match_lit ps cs else None)"

section \<open>The issue tracker: closing an issue\<close>








text \<open>\<open>/already\s+closed/i\<close> and \<open>/already\s+been\s+closed/i\<close>, at the start of a string.\<close>

definition spaces1 :: "string \<Rightarrow> string option" where
  "spaces1 s = (case s of [] \<Rightarrow> None | c # cs \<Rightarrow> if is_space c then Some (dropWhile is_space cs) else None)"







section \<open>Acceptance criteria in an issue body\<close>

datatype actor = agent | operator

record AcceptanceCriterion =
  ctext :: string
  completed :: bool
  completedBy :: "actor option"
  completedAt :: "string option"



























section \<open>The log journal\<close>

text \<open>
  A \<open>LogEntry\<close>; its \<open>type\<close> is one of the strings \<open>agent\<close>, \<open>operator\<close>,
  \<open>system\<close> and \<open>error\<close>.  \<open>NewLogEntry\<close> is the entry without its header,
  as \<open>appendLog\<close> takes it.
\<close>

record LogEntry =
  timestamp :: string
  loopId :: string
  etype :: string
  content :: string

record NewLogEntry =
  new_type :: string
  new_content :: string

text \<open>
  The file system the journal works on: the directories that exist and the content of the
  files that exist, by path.
\<close>

record filesystem =
  dirs :: "string set"
  files :: "string \<rightharpoonup> string"

text \<open>
  Modelled from the spec: \<open>getLoopDir\<close> and \<open>ensureLoopDir\<close> of the module
  \<open>state.js\<close>, which is not part of the sources.  The spec's layout puts the log of a
  loop at \<open>loops/<loopId>/log.jsonl\<close> under the data root; \<open>ensureLoopDir\<close> creates
  the directory of the loop when it is missing.
\<close>

definition getLoopDir :: "string \<Rightarrow> string \<Rightarrow> string" where
  "getLoopDir root lid = root @ ''/loops/'' @ lid"

definition ensureLoopDir :: "string \<Rightarrow> filesystem \<Rightarrow> string \<Rightarrow> filesystem" where
  "ensureLoopDir root fs lid = fs\<lparr>dirs := insert (getLoopDir root lid) (dirs fs)\<rparr>"

definition getLogPath :: "string \<Rightarrow> string \<Rightarrow> string" where
  "getLogPath root lid = getLoopDir root lid @ ''/log.jsonl''"

text \<open>
  \<open>JSON.stringify\<close> of a string: the quotes, the backslash and the control characters
  are escaped, so that the result has no raw newline.
\<close>

definition hex_digit :: "nat \<Rightarrow> char" where
  "hex_digit n = ''0123456789abcdef'' ! (n mod 16)"

definition quote_char :: "char \<Rightarrow> string" where
  "quote_char c =
     (if c = CHR 0x22 then [CHR 0x5C, CHR 0x22]
      else if c = CHR 0x5C then [CHR 0x5C, CHR 0x5C]
      else if c = CHR 0x08 then [CHR 0x5C, CHR ''b'']
      else if c = CHR 0x0C then [CHR 0x5C, CHR ''f'']
      else if c = CHR 0x0A then [CHR 0x5C, CHR ''n'']
      else if c = CHR 0x0D then [CHR 0x5C, CHR ''r'']
      else if c = CHR 0x09 then [CHR 0x5C, CHR ''t'']
      else if (of_char c :: nat) < 32
      then [CHR 0x5C, CHR ''u'', CHR ''0'', CHR ''0'',
            hex_digit ((of_char c :: nat) div 16), hex_digit (of_char c :: nat)]
      else [c])"

definition quote_json :: "string \<Rightarrow> string" where
  "quote_json s = [CHR 0x22] @ concat (map quote_char s) @ [CHR 0x22]"

text \<open>
  \<open>JSON.stringify(fullEntry)\<close>: the keys in the order of the object literal
  \<open>{timestamp, loopId, ...entry}\<close>, where the callers write \<open>type\<close> before
  \<open>content\<close>.
\<close>

definition stringify :: "LogEntry \<Rightarrow> string" where
  "stringify e =
     ''{'' @ quote_json ''timestamp'' @ '':'' @ quote_json (timestamp e) @ '','' @
     quote_json ''loopId'' @ '':'' @ quote_json (loopId e) @ '','' @
     quote_json ''type'' @ '':'' @ quote_json (etype e) @ '','' @
     quote_json ''content'' @ '':'' @ quote_json (content e) @ ''}''"

text \<open>
  \<open>appendLog\<close>; \<open>now\<close> is \<open>new Date().toISOString()\<close>.  \<open>appendFileSync\<close>
  creates the file when it is missing.
\<close>

definition file_content :: "filesystem \<Rightarrow> string \<Rightarrow> string" where
  "file_content fs path = (case files fs path of None \<Rightarrow> [] | Some c \<Rightarrow> c)"

definition appendLog ::
  "string \<Rightarrow> string \<Rightarrow> filesystem \<Rightarrow> string \<Rightarrow> NewLogEntry \<Rightarrow> filesystem" where
  "appendLog root now fs lid entry =
     (let fs1 = ensureLoopDir root fs lid;
          logPath = getLogPath root lid;
          fullEntry = \<lparr>timestamp = now, loopId = lid,
                        etype = new_type entry, content = new_content entry\<rparr>
      in fs1\<lparr>files := (files fs1)(logPath \<mapsto>
                 file_content fs1 logPath @ stringify fullEntry @ [newline])\<rparr>)"

text \<open>
  \<open>readLogs\<close>.  \<open>JSON.parse\<close> is the parameter \<open>parse\<close>, \<open>None\<close> when it
  throws.  A line whose JSON value is not an object (\<open>null\<close>, which \<open>readLogs\<close> alone
  filters out, a number, a string) has no \<open>LogEntry\<close> to stand for it and is outside
  the model.
\<close>

definition readLogs ::
  "(string \<Rightarrow> LogEntry option) \<Rightarrow> string \<Rightarrow> filesystem \<Rightarrow> string \<Rightarrow> LogEntry list" where
  "readLogs parse root fs lid =
     (case files fs (getLogPath root lid) of
        None \<Rightarrow> []
      | Some cont \<Rightarrow>
          (let lines = filter (\<lambda>l. l \<noteq> []) (split_on newline (trim cont))
           in List.map_filter parse lines))"




text \<open>
  The tailer: its variables, what \<open>tailLog\<close> does before the first poll, and one run of
  \<open>poll\<close>, which returns the entries it hands to \<open>onEntry\<close>, in order.  A missing
  file makes \<open>statSync\<close> throw \<open>ENOENT\<close>, which \<open>poll\<close> ignores.
\<close>

record tail_state =
  position :: nat
  lineBuffer :: string
  active :: bool

definition tailLog_start :: "string \<Rightarrow> filesystem \<Rightarrow> string \<Rightarrow> filesystem \<times> tail_state" where
  "tailLog_start root fs lid =
     (let logPath = getLogPath root lid;
          fs1 = ensureLoopDir root fs lid;
          fs2 = (if files fs1 logPath = None
                 then fs1\<lparr>files := (files fs1)(logPath \<mapsto> [])\<rparr> else fs1)
      in (fs2, \<lparr>position = length (file_content fs2 logPath), lineBuffer = [], active = True\<rparr>))"

definition poll ::
  "(string \<Rightarrow> LogEntry option) \<Rightarrow> string option \<Rightarrow> tail_state \<Rightarrow> tail_state \<times> LogEntry list" where
  "poll parse file st =
     (if \<not> active st then (st, [])
      else (case file of
              None \<Rightarrow> (st, [])
            | Some cont \<Rightarrow>
                if length cont > position st then
                  (let newContent = drop (position st) cont;
                       buffer = lineBuffer st @ newContent;
                       lines = split_on newline buffer
                   in (st\<lparr>position := length cont, lineBuffer := last lines\<rparr>,
                       List.map_filter parse (filter (\<lambda>line. trim line \<noteq> []) (butlast lines))))
                else if length cont < position st then
                  (st\<lparr>position := 0, lineBuffer := []\<rparr>, [])
                else (st, [])))"

text \<open>
  \<open>tailLog\<close> up to its return: the start and the first call of \<open>poll\<close>; and the
  cancel function it returns.
\<close>

definition tailLog ::
  "(string \<Rightarrow> LogEntry option) \<Rightarrow> string \<Rightarrow> filesystem \<Rightarrow> string \<Rightarrow>
   filesystem \<times> tail_state \<times> LogEntry list" where
  "tailLog parse root fs lid =
     (let (fs', st) = tailLog_start root fs lid;
          (st', delivered) = poll parse (files fs' (getLogPath root lid)) st
      in (fs', st', delivered))"

definition cancel :: "tail_state \<Rightarrow> tail_state" where
  "cancel st = st\<lparr>active := False\<rparr>"

text \<open>
  The polls that follow, while the file only grows: before each poll the bytes \<open>d\<close> are
  appended to the file, \<open>cont\<close> being its content so far.
\<close>

fun polls ::
  "(string \<Rightarrow> LogEntry option) \<Rightarrow> string \<Rightarrow> string list \<Rightarrow> tail_state \<Rightarrow> tail_state \<times> LogEntry list" where
  "polls parse cont [] st = (st, [])"
| "polls parse cont (d # ds) st =
     (let (st1, out1) = poll parse (Some (cont @ d)) st;
          (st2, out2) = polls parse (cont @ d) ds st1
      in (st2, out1 @ out2))"

text \<open>
  A complete record of the journal, as \<open>parse\<close> sees it: one line that \<open>JSON.parse\<close>
  accepts (a blank line is not JSON).
\<close>

definition json_record :: "(string \<Rightarrow> LogEntry option) \<Rightarrow> string \<Rightarrow> bool" where
  "json_record parse r \<longleftrightarrow> newline \<notin> set r \<and> trim r \<noteq> [] \<and> parse r \<noteq> None"





section \<open>The resume summary\<close>

definition is_digit :: "char \<Rightarrow> bool" where
  "is_digit c \<longleftrightarrow> c \<in> set ''0123456789''"

text \<open>The class \<open>[a-z]\<close> under the flag \<open>i\<close>.\<close>

definition is_alpha :: "char \<Rightarrow> bool" where
  "is_alpha c \<longleftrightarrow> lower c \<in> set ''abcdefghijklmnopqrstuvwxyz''"

definition digit_value :: "char \<Rightarrow> nat" where
  "digit_value c = (case map_of (zip ''0123456789'' [0 ..< 10]) c of Some n \<Rightarrow> n | None \<Rightarrow> 0)"

text \<open>
  \<open>parseInt(ds, 10)\<close> on a string of digits, and the decimal a number is printed as in a
  template string.  Numbers are natural numbers: the model does not cover the rounding of
  numbers beyond \<open>2^53\<close>.
\<close>

definition parseInt :: "string \<Rightarrow> nat" where
  "parseInt ds = foldl (\<lambda>n d. 10 * n + digit_value d) 0 ds"

fun show_nat :: "nat \<Rightarrow> string" where
  "show_nat n =
     (if n < 10 then [''0123456789'' ! n]
      else show_nat (n div 10) @ [''0123456789'' ! (n mod 10)])"

text \<open>The leftmost match of a pattern: \<open>m\<close> matches at the start of a string.\<close>

fun first_match :: "(string \<Rightarrow> 'a option) \<Rightarrow> string \<Rightarrow> 'a option" where
  "first_match m [] = m []"
| "first_match m (c # cs) =
     (case m (c # cs) of Some r \<Rightarrow> Some r | None \<Rightarrow> first_match m cs)"

text \<open>\<open>/Iteration (\d+)/\<close> at the start of a string: the group.\<close>

definition iteration_at :: "string \<Rightarrow> string option" where
  "iteration_at s =
     (if startsWith s ''Iteration ''
      then (case takeWhile is_digit (drop 10 s) of [] \<Rightarrow> None | d # ds \<Rightarrow> Some (d # ds))
      else None)"

definition iteration_of :: "string \<Rightarrow> nat" where
  "iteration_of s = (case first_match iteration_at s of Some ds \<Rightarrow> parseInt ds | None \<Rightarrow> 0)"

text \<open>
  The pattern \<open>filePatterns\<close>,
  \<open>/(?:created|modified|edited|wrote|updated|deleted)\s+(?:file\s+)?[`"]?([^\s`"]+\.[a-z]{1,5})[`"]?/gi\<close>,
  piece by piece.  Each matcher returns what follows its match.
\<close>

fun match_alternatives :: "string list \<Rightarrow> string \<Rightarrow> string option" where
  "match_alternatives [] s = None"
| "match_alternatives (v # vs) s =
     (case match_lit v s of Some r \<Rightarrow> Some r | None \<Rightarrow> match_alternatives vs s)"

definition is_quote :: "char \<Rightarrow> bool" where
  "is_quote c \<longleftrightarrow> c = CHR 0x60 \<or> c = CHR 0x22"

definition path_char :: "char \<Rightarrow> bool" where
  "path_char c \<longleftrightarrow> \<not> is_space c \<and> \<not> is_quote c"

text \<open>
  The group \<open>([^\s`"]+\.[a-z]{1,5})\<close> on the run \<open>R\<close> of path characters: the greedy
  \<open>+\<close> backs off to the last position \<open>j \<ge> 1\<close> that holds a dot followed by a
  letter.
\<close>

primrec last_dot :: "string \<Rightarrow> nat \<Rightarrow> nat option" where
  "last_dot R 0 = None"
| "last_dot R (Suc k) =
     (if Suc (Suc k) < length R \<and> R ! Suc k = CHR ''.'' \<and> is_alpha (R ! Suc (Suc k))
      then Some (Suc k) else last_dot R k)"

text \<open>The group and the closing \<open>[`"]?\<close>: the group and what follows the match.\<close>

definition path_match :: "string \<Rightarrow> (string \<times> string) option" where
  "path_match r =
     (let R = takeWhile path_char r in
      case last_dot R (length R - 2) of
        None \<Rightarrow> None
      | Some j \<Rightarrow>
          (let ext = take 5 (takeWhile is_alpha (drop (j + 1) R));
               rest = drop (j + 1 + length ext) r
           in Some (take (j + 1) R @ ext,
                    (case rest of [] \<Rightarrow> [] | q # rest' \<Rightarrow> if is_quote q then rest' else q # rest'))))"

text \<open>\<open>[`"]?\<close> and the rest of the pattern.\<close>

definition quoted_path_match :: "string \<Rightarrow> (string \<times> string) option" where
  "quoted_path_match r =
     (case r of
        [] \<Rightarrow> None
      | q # r' \<Rightarrow> if is_quote q then path_match r' else path_match (q # r'))"

text \<open>
  The whole pattern at the start of a string.  The optional \<open>(?:file\s+)?\<close> is tried
  first; when the rest does not match after it, the rest is matched without it.
\<close>

definition file_match_at :: "string \<Rightarrow> (string \<times> string) option" where
  "file_match_at s =
     (case match_alternatives
             [''created'', ''modified'', ''edited'', ''wrote'', ''updated'', ''deleted''] s of
        None \<Rightarrow> None
      | Some r0 \<Rightarrow>
          (case spaces1 r0 of
             None \<Rightarrow> None
           | Some r1 \<Rightarrow>
               (case (case match_lit ''file'' r1 of
                        None \<Rightarrow> None
                      | Some r2 \<Rightarrow>
                          (case spaces1 r2 of
                             None \<Rightarrow> None
                           | Some r3 \<Rightarrow> quoted_path_match r3)) of
                  Some res \<Rightarrow> Some res
                | None \<Rightarrow> quoted_path_match r1)))"

text \<open>
  The loop \<open>while ((match = filePatterns.exec(log.content)) !== null)\<close>: the groups of
  the successive matches.  After a match the search goes on where the match ended, which is
  \<open>skip\<close> characters further.
\<close>

fun exec_loop :: "nat \<Rightarrow> string \<Rightarrow> string list" where
  "exec_loop skip [] = []"
| "exec_loop (Suc skip) (c # cs) = exec_loop skip cs"
| "exec_loop 0 (c # cs) =
     (case file_match_at (c # cs) of
        Some (cap, rest) \<Rightarrow> cap # exec_loop (length cs - length rest) cs
      | None \<Rightarrow> exec_loop 0 cs)"

text \<open>\<open>Set.add\<close>: a set keeps the order of first insertion.\<close>

definition set_add :: "'a \<Rightarrow> 'a list \<Rightarrow> 'a list" where
  "set_add x xs = (if x \<in> set xs then xs else xs @ [x])"

text \<open>\<open>s.replace(p, r)\<close> for a string pattern: the first occurrence.\<close>

fun replace_first :: "string \<Rightarrow> string \<Rightarrow> string \<Rightarrow> string" where
  "replace_first p r [] = (if p = [] then r else [])"
| "replace_first p r (c # cs) =
     (if startsWith (c # cs) p then r @ drop (length p) (c # cs)
      else c # replace_first p r cs)"

text \<open>\<open>s.slice(0, e)\<close>: a negative end counts from the end of the string.\<close>

definition slice0 :: "string \<Rightarrow> int \<Rightarrow> string" where
  "slice0 s e =
     (if e < 0 then take (nat (max (int (length s) + e) 0)) s
      else take (nat e) s)"

text \<open>
  The sections of the summary, in order.  (The source also collects the names of the tools
  used, which it then does not use.)
\<close>

definition summary_parts :: "LogEntry list \<Rightarrow> string list" where
  "summary_parts logs =
     (let systemLogs = filter (\<lambda>l. etype l = ''system'') logs;
          agentLogs = filter (\<lambda>l. etype l = ''agent'') logs;
          iterationMatches =
            map (\<lambda>l. iteration_of (content l))
              (filter (\<lambda>l. includes_str (content l) ''--- Iteration'') systemLogs);
          maxIteration = fold max iterationMatches 0;
          criteriaCompletions =
            map content
              (filter (\<lambda>l. includes_str (content l) ''Criterion'' \<and>
                              includes_str (content l) ''complete'') systemLogs);
          filesModified =
            fold set_add (concat (map (\<lambda>l. exec_loop 0 (content l)) agentLogs)) [];
          analysisLogs = filter (\<lambda>l. startsWith (content l) ''Analysis:'') systemLogs;
          lastAnalysis = (if analysisLogs = [] then [] else content (last analysisLogs));
          recentAgent =
            join [newline]
              (map (\<lambda>l. take 200 (content l)) (drop (length agentLogs - 5) agentLogs))
      in [''Iterations completed: '' @ show_nat maxIteration] @
         (if filesModified \<noteq> []
          then [''Files touched: '' @ join '', '' (take 10 filesModified)] else []) @
         (if criteriaCompletions \<noteq> []
          then [''Criteria progress: '' @ show_nat (length criteriaCompletions) @ '' updates'']
          else []) @
         (if lastAnalysis \<noteq> []
          then [''Last analysis: '' @ replace_first ''Analysis: '' [] lastAnalysis] else []) @
         (if recentAgent \<noteq> []
          then [''Recent activity:'' @ [newline] @ take 800 recentAgent] else []))"

definition generateResumeSummary ::
  "(string \<Rightarrow> LogEntry option) \<Rightarrow> string \<Rightarrow> filesystem \<Rightarrow> string \<Rightarrow> int \<Rightarrow> string" where
  "generateResumeSummary parse root fs lid maxChars =
     (let logs = readLogs parse root fs lid in
      if logs = [] then ''No previous work logged.''
      else (let summary = join [newline, newline] (summary_parts logs)
            in if int (length summary) > maxChars
               then slice0 summary (maxChars - 3) @ ''...''
               else summary))"

section \<open>Prompts\<close>

record Issue =
  issue_url :: string
  issue_number :: nat
  issue_title :: string
  issue_body :: string
  issue_repo :: string
  acceptanceCriteria :: "AcceptanceCriterion list"
  originalAcceptanceCriteria :: "AcceptanceCriterion list"

definition buildPromptFromIssue :: "Issue \<Rightarrow> string" where
  "buildPromptFromIssue issue =
     ''# Task: '' @ issue_title issue @ [newline, newline] @
     ''GitHub Issue: '' @ issue_url issue @ [newline, newline] @
     (if acceptanceCriteria issue \<noteq> []
      then ''## Acceptance Criteria'' @ [newline] @
           concat (map (\<lambda>ac. ''- '' @ (if completed ac then ''[x]'' else ''[ ]'') @ '' '' @
                                ctext ac @ [newline])
                       (acceptanceCriteria issue)) @
           [newline]
      else []) @
     ''## Issue Description'' @ [newline] @ issue_body issue @ [newline, newline] @
     ''## Instructions'' @ [newline] @
     ''Complete all acceptance criteria above.'' @ [newline] @
     ''Mark criteria as you finish them with:'' @ [newline] @
     ''- <criterion-complete>N</criterion-complete>'' @ [newline] @
     ''- <criterion-incomplete>N</criterion-incomplete> (if you need to regress)'' @ [newline] @
     ''Criteria are 1-indexed based on the list above.'' @ [newline] @
     ''When all criteria are complete, output the exact tag: <promise>TASK COMPLETE</promise>'' @
     [newline]"

text \<open>\<open>remainingCriteria.map((c, i) => `${i + 1}. ${c}`)\<close>\<close>

definition numbered :: "string list \<Rightarrow> string list" where
  "numbered cs = map (\<lambda>(c, i). show_nat (i + 1) @ ''. '' @ c) (zip cs [0 ..< length cs])"

definition buildResumePrompt :: "string \<Rightarrow> string list \<Rightarrow> string" where
  "buildResumePrompt workSummary remainingCriteria =
     (let criteriaList =
            (if remainingCriteria \<noteq> [] then join [newline] (numbered remainingCriteria)
             else ''(all criteria completed)'')
      in ''RESUMING FROM PAUSE (previous session)'' @ [newline, newline] @
         ''## Summary of work done so far:'' @ [newline] @
         workSummary @ [newline, newline] @
         ''## Remaining acceptance criteria:'' @ [newline] @
         criteriaList @ [newline, newline] @
         ''Please continue working on this task. Review the summary above and pick up where you left off. When each criterion is complete, emit <criterion-complete>N</criterion-complete>. When all criteria are done, emit <promise>TASK COMPLETE</promise>.'')"

text \<open>
  Modelled from the spec: the list the engine passes to \<open>buildResumePrompt\<close>.  The engine's
  \<open>resumePausedLoop\<close> (\<open>core/loop.js\<close>) is not part of the sources; the spec says that the
  resume prompt is built from the summary and the remaining criteria, "only the criteria still
  marked incomplete", in their stored order.
\<close>

definition remaining_criteria :: "AcceptanceCriterion list \<Rightarrow> string list" where
  "remaining_criteria criteria = map ctext (filter (\<lambda>c. \<not> completed c) criteria)"

section \<open>The operator's toggle\<close>

datatype LoopStatus = Queued | Running | Paused | Completed | Stopped | Errored

record Loop =
  loop_id :: string
  loop_agent :: string
  status :: LoopStatus
  issue :: Issue
  repoRoot :: string
  skipPermissions :: bool
  sessionId :: "string option"
  startedAt :: "string option"
  endedAt :: "string option"
  pausedAt :: "string option"
  pausedFromPreviousSession :: bool
  issueClosed :: bool
  loop_error :: "string option"
  pid :: "nat option"

text \<open>
  Modelled from the spec: \<open>updateLoop\<close> of the module \<open>state.js\<close>, which is not part of
  the sources.  It "returns a new document with the patch shallow-merged into the matching
  loop; unknown ids are no-ops".  The only patch \<open>toggleCriterion\<close> passes is
  \<open>{issue: ...}\<close>.  \<open>loadState\<close> and \<open>saveState\<close> read and write the whole document,
  which the model passes in and returns.
\<close>

definition updateLoop_issue :: "Loop list \<Rightarrow> string \<Rightarrow> Issue \<Rightarrow> Loop list" where
  "updateLoop_issue loops lid patch =
     map (\<lambda>l. if loop_id l = lid then l\<lparr>issue := patch\<rparr> else l) loops"

text \<open>
  The assignments to \<open>criterion.completed\<close>, \<open>completedBy\<close> and \<open>completedAt\<close> change the
  criterion inside the loop that \<open>find\<close> returned, which is the first loop of the document
  with that id.
\<close>

fun update_first :: "('a \<Rightarrow> bool) \<Rightarrow> ('a \<Rightarrow> 'a) \<Rightarrow> 'a list \<Rightarrow> 'a list" where
  "update_first P f [] = []"
| "update_first P f (x # xs) = (if P x then f x # xs else x # update_first P f xs)"

text \<open>
  \<open>toggleCriterion\<close>, on the document and the file system of the logs; \<open>now1\<close> and
  \<open>now2\<close> are the two readings of the clock, for \<open>completedAt\<close> and for the log entry.
  What it draws on the screen is not modelled.
\<close>

definition toggleCriterion ::
  "string \<Rightarrow> string \<Rightarrow> string \<Rightarrow> Loop list \<Rightarrow> filesystem \<Rightarrow> string \<Rightarrow> int \<Rightarrow>
   Loop list \<times> filesystem" where
  "toggleCriterion root now1 now2 loops fs lid index =
     (case find (\<lambda>l. loop_id l = lid) loops of
        None \<Rightarrow> (loops, fs)
      | Some loop \<Rightarrow>
          if index < 0 \<or> index \<ge> int (length (acceptanceCriteria (issue loop))) then (loops, fs)
          else
            (let criterion = acceptanceCriteria (issue loop) ! nat index;
                 nextCompleted = (\<not> completed criterion);
                 criterion' = criterion\<lparr>
                   completed := nextCompleted,
                   completedBy := (if nextCompleted then Some operator else None),
                   completedAt := (if nextCompleted then Some now1 else None)\<rparr>;
                 issue' = (issue loop)\<lparr>acceptanceCriteria :=
                            (acceptanceCriteria (issue loop))[nat index := criterion']\<rparr>;
                 mutated = update_first (\<lambda>l. loop_id l = lid) (\<lambda>l. l\<lparr>issue := issue'\<rparr>) loops;
                 nextState = updateLoop_issue mutated lid issue';
                 fs' = appendLog root now2 fs lid
                         \<lparr>new_type = ''system'',
                          new_content = ''Criterion '' @ show_nat (nat index + 1) @ '' marked '' @
                            (if nextCompleted then ''complete'' else ''incomplete'') @
                            '' by operator''\<rparr>
             in (nextState, fs')))"

section \<open>Verified properties\<close>

subsection \<open>The issue tracker interface\<close>

lemma split_on_nonempty: "split_on c s \<noteq> []"
  by (induction s) (auto split: list.splits)



subsection \<open>Parsing acceptance criteria\<close>








subsection \<open>Writing the criteria back into the body\<close>

lemma split_on_no_sep: "l \<in> set (split_on c s) \<Longrightarrow> c \<notin> set l"
  by (induction s arbitrary: l) (auto split: if_splits list.splits)


lemma split_on_append_no_sep:
  "c \<notin> set l \<Longrightarrow> split_on c (l @ c # s) = l # split_on c s"
  by (induction l) auto

lemma split_on_no_sep_id: "c \<notin> set l \<Longrightarrow> split_on c l = [l]"
  by (induction l) auto

















subsection \<open>The log journal: the tailer\<close>


lemma split_on_append:
  "split_on c (x @ y) = butlast (split_on c x) @ split_on c (last (split_on c x) @ y)"
proof (induction x)
  case Nil show ?case by simp
next
  case (Cons a x)
  obtain l ls where e: "split_on c x = l # ls"
    by (cases "split_on c x") (auto simp: split_on_nonempty)
  obtain l' ls' where e': "split_on c (last (split_on c x) @ y) = l' # ls'"
    by (cases "split_on c (last (split_on c x) @ y)") (auto simp: split_on_nonempty)
  show ?case
  proof (cases "a = c")
    case True
    with Cons e show ?thesis by simp
  next
    case False
    show ?thesis
    proof (cases ls)
      case Nil
      with Cons e False show ?thesis by simp
    next
      case (Cons m ms)
      with Cons.IH e False show ?thesis by simp
    qed
  qed
qed

lemma last_split_on_no_sep: "c \<notin> set (last (split_on c s))"
  using split_on_no_sep [of "last (split_on c s)" c s] split_on_nonempty [of c s]
  by simp

lemma map_filter_append: "List.map_filter f (xs @ ys) = List.map_filter f xs @ List.map_filter f ys"
  by (simp add: List.map_filter_def)

lemma poll_grow:
  assumes "active st" "position st = length cont" "d \<noteq> []"
  shows "poll parse (Some (cont @ d)) st =
     (st\<lparr>position := length cont + length d,
         lineBuffer := last (split_on newline (lineBuffer st @ d))\<rparr>,
      List.map_filter parse
        (filter (\<lambda>line. trim line \<noteq> []) (butlast (split_on newline (lineBuffer st @ d)))))"
  using assms by (simp add: poll_def Let_def)

lemma poll_same:
  assumes "position st = length cont"
  shows "poll parse (Some cont) st = (st, [])"
  using assms by (simp add: poll_def)

lemma polls_deliver:
  assumes "active st" "position st = length cont" "newline \<notin> set (lineBuffer st)"
  shows "polls parse cont ds st =
     (st\<lparr>position := length cont + length (concat ds),
         lineBuffer := last (split_on newline (lineBuffer st @ concat ds))\<rparr>,
      List.map_filter parse
        (filter (\<lambda>line. trim line \<noteq> [])
           (butlast (split_on newline (lineBuffer st @ concat ds)))))"
  using assms
proof (induction ds arbitrary: cont st)
  case Nil
  then show ?case by (simp add: split_on_no_sep_id)
next
  case (Cons d ds)
  show ?case
  proof (cases "d = []")
    case True
    with Cons.prems have "poll parse (Some (cont @ d)) st = (st, [])"
      by (simp add: poll_same)
    moreover have "polls parse (cont @ d) ds st = 
       (st\<lparr>position := length (cont @ d) + length (concat ds),
         lineBuffer := last (split_on newline (lineBuffer st @ concat ds))\<rparr>,
      List.map_filter parse
        (filter (\<lambda>line. trim line \<noteq> [])
           (butlast (split_on newline (lineBuffer st @ concat ds)))))"
      using Cons.prems True by (intro Cons.IH) auto
    ultimately show ?thesis using True by simp
  next
    case False
    let ?b = "lineBuffer st @ d"
    let ?st1 = "st\<lparr>position := length cont + length d,
         lineBuffer := last (split_on newline ?b)\<rparr>"
    have p1: "poll parse (Some (cont @ d)) st =
       (?st1, List.map_filter parse
        (filter (\<lambda>line. trim line \<noteq> []) (butlast (split_on newline ?b))))"
      using Cons.prems False by (simp add: poll_grow)
    have p2: "polls parse (cont @ d) ds ?st1 =
       (?st1\<lparr>position := length (cont @ d) + length (concat ds),
         lineBuffer := last (split_on newline (lineBuffer ?st1 @ concat ds))\<rparr>,
      List.map_filter parse
        (filter (\<lambda>line. trim line \<noteq> [])
           (butlast (split_on newline (lineBuffer ?st1 @ concat ds)))))"
      using Cons.prems by (intro Cons.IH) (auto simp: last_split_on_no_sep)
    have sp: "split_on newline (lineBuffer st @ concat (d # ds)) =
        butlast (split_on newline ?b) @ split_on newline (last (split_on newline ?b) @ concat ds)"
      using split_on_append [of newline ?b "concat ds"] by simp
    have l: "last (split_on newline (lineBuffer st @ concat (d # ds))) =
        last (split_on newline (last (split_on newline ?b) @ concat ds))"
      unfolding sp by (simp add: split_on_nonempty)
    have b: "butlast (split_on newline (lineBuffer st @ concat (d # ds))) =
        butlast (split_on newline ?b) @
        butlast (split_on newline (last (split_on newline ?b) @ concat ds))"
      unfolding sp by (simp add: butlast_append split_on_nonempty)
    show ?thesis
      unfolding l b by (simp add: p1 p2 map_filter_append)
  qed
qed

lemma split_on_records:
  assumes "\<forall>r \<in> set rs. c \<notin> set r" "c \<notin> set partial"
  shows "split_on c (concat (map (\<lambda>r. r @ [c]) rs) @ partial) = rs @ [partial]"
  using assms by (induction rs) (auto simp: split_on_no_sep_id split_on_append_no_sep)

lemma map_filter_all:
  "\<forall>r \<in> set rs. f r \<noteq> None \<Longrightarrow> map Some (List.map_filter f rs) = map f rs"
  by (induction rs) (auto simp: List.map_filter_def)

lemma tailLog_start_state:
  "tailLog_start root fs lid = (fs', st) \<Longrightarrow>
   active st \<and> lineBuffer st = [] \<and> position st = length (file_content fs' (getLogPath root lid)) \<and>
   files fs' (getLogPath root lid) = Some (file_content fs (getLogPath root lid))"
  by (auto simp: tailLog_start_def Let_def file_content_def ensureLoopDir_def split: if_splits option.splits)

text \<open>
  C4.  Start \<open>tailLog\<close> on a loop, then let the bytes of \<open>k\<close> complete records,
  each one line that parses and ends with a newline, be appended to the log file, followed
  by an unfinished line \<open>partial\<close> (possibly empty), the tailer polling after each piece
  \<open>d\<close> of any cut \<open>ds\<close> of those bytes.  The call itself delivers nothing; the polls
  deliver exactly the \<open>k\<close> records, parsed, in the order of the file; the unfinished
  line is not delivered and stays in the line buffer.
\<close>

theorem tail_delivery:
  assumes start: "tailLog parse root fs lid = (fs', st, out0)"
    and recs: "\<forall>r \<in> set records. json_record parse r"
    and part: "newline \<notin> set partial"
    and appended: "concat ds = concat (map (\<lambda>r. r @ [newline]) records) @ partial"
  shows "out0 = [] \<and>
     map Some (snd (polls parse (file_content fs' (getLogPath root lid)) ds st)) =
       map parse records \<and>
     length (snd (polls parse (file_content fs' (getLogPath root lid)) ds st)) = length records \<and>
     lineBuffer (fst (polls parse (file_content fs' (getLogPath root lid)) ds st)) = partial"
proof -
  let ?cont = "file_content fs' (getLogPath root lid)"
  obtain st0 where s0: "tailLog_start root fs lid = (fs', st0)"
    using start by (auto simp: tailLog_def Let_def split: prod.splits)
  note i0 = tailLog_start_state [OF s0]
  from i0 have "poll parse (files fs' (getLogPath root lid)) st0 = (st0, [])"
    by (simp add: poll_same file_content_def)
  with start s0 have st: "st = st0" and out0: "out0 = []"
    by (auto simp: tailLog_def)
  have inv: "active st" "position st = length ?cont" "newline \<notin> set (lineBuffer st)"
    using i0 st by auto
  have sp: "split_on newline (lineBuffer st @ concat ds) = records @ [partial]"
    using i0 st appended recs part by (simp add: split_on_records json_record_def)
  have nb: "filter (\<lambda>line. trim line \<noteq> []) records = records"
    using recs by (auto simp: json_record_def filter_id_conv)
  have ps: "\<forall>r \<in> set records. parse r \<noteq> None"
    using recs by (simp add: json_record_def)
  have d: "snd (polls parse ?cont ds st) = List.map_filter parse records"
    unfolding polls_deliver [OF inv] sp by (simp add: nb)
  have "length (map Some (List.map_filter parse records)) = length (map parse records)"
    using ps by (simp only: map_filter_all)
  then have len: "length (List.map_filter parse records) = length records" by simp
  have b: "lineBuffer (fst (polls parse ?cont ds st)) = partial"
    unfolding polls_deliver [OF inv] sp by simp
  show ?thesis using out0 d b len ps by (simp add: map_filter_all)
qed

theorem tail_delivery_witness:
  "map Some (snd (polls (\<lambda>s. if s = ''{1}'' then Some \<lparr>timestamp = ''t1'', loopId = ''L'', etype = ''agent'', content = ''one''\<rparr>
                         else if s = ''{2}'' then Some \<lparr>timestamp = ''t2'', loopId = ''L'', etype = ''system'', content = ''two''\<rparr>
                         else None)
       [] [''{1'', ''}\<newline>{2}\<newline>{'', ''3''] \<lparr>position = 0, lineBuffer = [], active = True\<rparr>)) =
     [Some \<lparr>timestamp = ''t1'', loopId = ''L'', etype = ''agent'', content = ''one''\<rparr>,
      Some \<lparr>timestamp = ''t2'', loopId = ''L'', etype = ''system'', content = ''two''\<rparr>] \<and>
   lineBuffer (fst (polls (\<lambda>s. if s = ''{1}'' then Some \<lparr>timestamp = ''t1'', loopId = ''L'', etype = ''agent'', content = ''one''\<rparr>
                         else if s = ''{2}'' then Some \<lparr>timestamp = ''t2'', loopId = ''L'', etype = ''system'', content = ''two''\<rparr>
                         else None)
       [] [''{1'', ''}\<newline>{2}\<newline>{'', ''3''] \<lparr>position = 0, lineBuffer = [], active = True\<rparr>)) = ''{3''"
proof -
  let ?parse = "\<lambda>s. if s = ''{1}'' then Some \<lparr>timestamp = ''t1'', loopId = ''L'', etype = ''agent'', content = ''one''\<rparr>
                         else if s = ''{2}'' then Some \<lparr>timestamp = ''t2'', loopId = ''L'', etype = ''system'', content = ''two''\<rparr>
                         else None"
  let ?fs = "\<lparr>dirs = {}, files = Map.empty\<rparr>"
  let ?fs' = "\<lparr>dirs = {''data/loops/L''}, files = [''data/loops/L/log.jsonl'' \<mapsto> []]\<rparr>"
  let ?st = "\<lparr>position = 0, lineBuffer = [], active = True\<rparr>"
  have h1: "tailLog ?parse ''data'' ?fs ''L'' = (?fs', ?st, [])"
    by (simp add: tailLog_def tailLog_start_def ensureLoopDir_def getLogPath_def getLoopDir_def
        file_content_def poll_def)
  have h2: "\<forall>r \<in> set [''{1}'', ''{2}'']. json_record ?parse r" by code_simp
  have h3: "newline \<notin> set ''{3''" by code_simp
  have h4: "concat [''{1'', ''}\<newline>{2}\<newline>{'', ''3''] =
      concat (map (\<lambda>r. r @ [newline]) [''{1}'', ''{2}'']) @ ''{3''" by code_simp
  have c: "file_content ?fs' (getLogPath ''data'' ''L'') = []"
    by (simp add: file_content_def getLogPath_def getLoopDir_def)
  from tail_delivery [OF h1 h2 h3 h4] show ?thesis unfolding c by simp
qed

text \<open>
  C10.  When the log file of the loop does not exist, \<open>tailLog\<close> creates the directory
  of the loop and an empty log file, and has done so before its first poll: the file system
  it leaves differs from the one it found.
\<close>

theorem tailLog_creates_log_file:
  assumes "files fs (getLogPath root lid) = None"
  shows "fst (tailLog_start root fs lid) = fst (tailLog parse root fs lid) \<and>
     files (fst (tailLog parse root fs lid)) (getLogPath root lid) = Some [] \<and>
     getLoopDir root lid \<in> dirs (fst (tailLog parse root fs lid)) \<and>
     fst (tailLog parse root fs lid) \<noteq> fs \<and>
     (\<forall>path. path \<noteq> getLogPath root lid \<longrightarrow>
        files (fst (tailLog parse root fs lid)) path = files fs path)"
proof -
  let ?fs' = "(ensureLoopDir root fs lid)\<lparr>files := (files fs)(getLogPath root lid \<mapsto> [])\<rparr>"
  have s: "fst (tailLog_start root fs lid) = ?fs'"
    using assms by (simp add: tailLog_start_def Let_def ensureLoopDir_def)
  have t: "fst (tailLog parse root fs lid) = fst (tailLog_start root fs lid)"
    by (simp add: tailLog_def Let_def split: prod.splits)
  have "files ?fs' (getLogPath root lid) \<noteq> files fs (getLogPath root lid)"
    using assms by simp
  then have "?fs' \<noteq> fs" by metis
  then show ?thesis unfolding t s by (simp add: ensureLoopDir_def)
qed

theorem tailLog_creates_log_file_witness:
  "files (fst (tailLog (\<lambda>s. None) ''data'' \<lparr>dirs = {}, files = Map.empty\<rparr> ''L''))
     ''data/loops/L/log.jsonl'' = Some [] \<and>
   ''data/loops/L'' \<in> dirs (fst (tailLog (\<lambda>s. None) ''data'' \<lparr>dirs = {}, files = Map.empty\<rparr> ''L''))"
proof -
  have h: "files \<lparr>dirs = {}, files = Map.empty\<rparr> (getLogPath ''data'' ''L'') = None" by simp
  have p: "getLogPath ''data'' ''L'' = ''data/loops/L/log.jsonl''"
    by (simp add: getLogPath_def getLoopDir_def)
  have d: "getLoopDir ''data'' ''L'' = ''data/loops/L''"
    by (simp add: getLoopDir_def)
  from tailLog_creates_log_file [OF h, of "\<lambda>s. None"] show ?thesis unfolding p d by simp
qed

subsection \<open>The log journal: appending and reading\<close>



















subsection \<open>The resume summary\<close>

text \<open>
  C6 (as stated).  On a loop with no log the summary is the fixed text
  \<open>No previous work logged.\<close>, 24 characters, whatever \<open>maxChars\<close> is: with
  \<open>maxChars = 10\<close> the result is longer than the bound.
\<close>

theorem generateResumeSummary_unbounded_counterexample:
  "generateResumeSummary (\<lambda>s. None) ''data'' \<lparr>dirs = {}, files = Map.empty\<rparr> ''L'' 10 =
     ''No previous work logged.'' \<and>
   \<not> int (length (generateResumeSummary (\<lambda>s. None) ''data''
                     \<lparr>dirs = {}, files = Map.empty\<rparr> ''L'' 10)) \<le> 10"
  by (simp add: generateResumeSummary_def readLogs_def)

text \<open>
  C6 (amended).  For every \<open>maxChars\<close> of at least 24, and for every \<open>maxChars\<close> of at
  least 3 when the log is not empty, \<open>generateResumeSummary\<close> returns a string of at most
  \<open>maxChars\<close> characters.  With an empty log it returns the fixed text; otherwise it
  returns its sections joined with blank lines, cut to \<open>maxChars - 3\<close> characters and
  followed by \<open>...\<close> when the joined text is longer than \<open>maxChars\<close>.
\<close>

theorem generateResumeSummary_bounded:
  "(24 \<le> maxChars \<or> (3 \<le> maxChars \<and> readLogs parse root fs lid \<noteq> []) \<longrightarrow>
      int (length (generateResumeSummary parse root fs lid maxChars)) \<le> maxChars) \<and>
   (readLogs parse root fs lid = [] \<longrightarrow>
      generateResumeSummary parse root fs lid maxChars = ''No previous work logged.'') \<and>
   (3 \<le> maxChars \<and> readLogs parse root fs lid \<noteq> [] \<longrightarrow>
      generateResumeSummary parse root fs lid maxChars =
        (let joined = join [newline, newline] (summary_parts (readLogs parse root fs lid))
         in if int (length joined) \<le> maxChars then joined
            else take (nat (maxChars - 3)) joined @ ''...''))"
proof -
  let ?logs = "readLogs parse root fs lid"
  let ?joined = "join [newline, newline] (summary_parts ?logs)"
  have e: "generateResumeSummary parse root fs lid maxChars = ''No previous work logged.''"
    if "?logs = []"
    using that by (simp add: generateResumeSummary_def)
  have t: "generateResumeSummary parse root fs lid maxChars =
        (if int (length ?joined) \<le> maxChars then ?joined
         else take (nat (maxChars - 3)) ?joined @ ''...'')"
    if "3 \<le> maxChars" "?logs \<noteq> []"
    using that by (simp add: generateResumeSummary_def Let_def slice0_def)
  have b: "int (length (generateResumeSummary parse root fs lid maxChars)) \<le> maxChars"
    if "3 \<le> maxChars" "?logs \<noteq> []"
    unfolding t [OF that] using that by auto
  have b': "int (length (generateResumeSummary parse root fs lid maxChars)) \<le> maxChars"
    if "24 \<le> maxChars"
  proof (cases "?logs = []")
    case True
    then show ?thesis using that by (simp add: e)
  next
    case False
    with that show ?thesis by (intro b) auto
  qed
  from e t b b' show ?thesis by (simp add: Let_def)
qed

theorem generateResumeSummary_bounded_witness:
  "generateResumeSummary
     (\<lambda>s. if s = ''{1}'' then Some \<lparr>timestamp = ''t1'', loopId = ''L'', etype = ''system'', content = ''--- Iteration 3 ---''\<rparr>
          else if s = ''{2}'' then Some \<lparr>timestamp = ''t2'', loopId = ''L'', etype = ''agent'', content = ''I created a.ts and edited a.ts''\<rparr>
          else None)
     ''data'' \<lparr>dirs = {}, files = [''data/loops/L/log.jsonl'' \<mapsto> ''{1}\<newline>{2}\<newline>'']\<rparr> ''L'' 40 =
   ''Iterations completed: 3\<newline>\<newline>Files touche...''"
proof -
  let ?parse = "\<lambda>s. if s = ''{1}'' then Some \<lparr>timestamp = ''t1'', loopId = ''L'', etype = ''system'', content = ''--- Iteration 3 ---''\<rparr>
          else if s = ''{2}'' then Some \<lparr>timestamp = ''t2'', loopId = ''L'', etype = ''agent'', content = ''I created a.ts and edited a.ts''\<rparr>
          else None"
  let ?fs = "\<lparr>dirs = {}, files = [''data/loops/L/log.jsonl'' \<mapsto> ''{1}\<newline>{2}\<newline>'']\<rparr>"
  have h: "(3::int) \<le> 40 \<and> readLogs ?parse ''data'' ?fs ''L'' \<noteq> []" by code_simp
  have e: "(let joined = join [newline, newline] (summary_parts (readLogs ?parse ''data'' ?fs ''L''))
         in if int (length joined) \<le> 40 then joined
            else take (nat (40 - 3)) joined @ ''...'') =
      ''Iterations completed: 3\<newline>\<newline>Files touche...''"
    by code_simp
  from generateResumeSummary_bounded [of 40 ?parse "''data''" ?fs "''L''"] h
  have "generateResumeSummary ?parse ''data'' ?fs ''L'' 40 =
      (let joined = join [newline, newline] (summary_parts (readLogs ?parse ''data'' ?fs ''L''))
         in if int (length joined) \<le> 40 then joined
            else take (nat (40 - 3)) joined @ ''...'')"
    by blast
  with e show ?thesis by (simp only:)
qed

subsection \<open>The operator toggle\<close>

lemma update_first_distinct:
  assumes "distinct (map k xs)" "find (\<lambda>l. k l = a) xs = Some x"
  shows "update_first (\<lambda>l. k l = a) f xs = map (\<lambda>l. if k l = a then f l else l) xs"
  using assms
proof (induction xs)
  case Nil
  then show ?case by simp
next
  case (Cons y ys)
  show ?case
  proof (cases "k y = a")
    case True
    from Cons.prems(1) have "k y \<notin> k ` set ys" by simp
    with True have "\<forall>l \<in> set ys. k l \<noteq> a" by blast
    then have "map (\<lambda>l. if k l = a then f l else l) ys = ys"
      by (induction ys) auto
    with True show ?thesis by simp
  next
    case False
    with Cons show ?thesis by simp
  qed
qed

lemma find_map_same_key:
  assumes "\<And>l. k (g l) = k l"
  shows "find (\<lambda>l. k l = a) (map (\<lambda>l. if k l = a then g l else l) xs) =
         map_option g (find (\<lambda>l. k l = a) xs)"
  using assms by (induction xs) auto

text \<open>
  C3.  When the operator toggles a criterion that is not complete, of a loop of the document
  (whose loops have distinct ids), the criterion becomes complete with
  \<open>completedBy = operator\<close> and \<open>completedAt\<close> set; no other criterion, no other field of
  the loop and no other loop changes, so \<open>status\<close> and \<open>endedAt\<close> are what they were,
  also when the toggle completes the last criterion of a running loop; and one entry of type
  \<open>system\<close> is appended to the log of the loop.
\<close>

theorem toggleCriterion_complete:
  assumes found: "find (\<lambda>l. loop_id l = lid) loops = Some loop"
    and ids: "distinct (map loop_id loops)"
    and lower: "0 \<le> index"
    and upper: "index < int (length (acceptanceCriteria (issue loop)))"
    and incomplete: "\<not> completed (acceptanceCriteria (issue loop) ! nat index)"
  shows "fst (toggleCriterion root now1 now2 loops fs lid index) =
           map (\<lambda>l. if loop_id l = lid
                    then l\<lparr>issue := (issue loop)\<lparr>acceptanceCriteria :=
                           (acceptanceCriteria (issue loop))[nat index :=
                              (acceptanceCriteria (issue loop) ! nat index)\<lparr>
                                 completed := True,
                                 completedBy := Some operator,
                                 completedAt := Some now1\<rparr>]\<rparr>\<rparr>
                    else l) loops \<and>
         find (\<lambda>l. loop_id l = lid) (fst (toggleCriterion root now1 now2 loops fs lid index)) =
           Some (loop\<lparr>issue := (issue loop)\<lparr>acceptanceCriteria :=
                           (acceptanceCriteria (issue loop))[nat index :=
                              (acceptanceCriteria (issue loop) ! nat index)\<lparr>
                                 completed := True,
                                 completedBy := Some operator,
                                 completedAt := Some now1\<rparr>]\<rparr>\<rparr>) \<and>
         map status (fst (toggleCriterion root now1 now2 loops fs lid index)) = map status loops \<and>
         map endedAt (fst (toggleCriterion root now1 now2 loops fs lid index)) = map endedAt loops \<and>
         file_content (snd (toggleCriterion root now1 now2 loops fs lid index)) (getLogPath root lid) =
           file_content fs (getLogPath root lid) @
           stringify \<lparr>timestamp = now2, loopId = lid, etype = ''system'',
                      content = ''Criterion '' @ show_nat (nat index + 1) @
                                '' marked complete by operator''\<rparr> @ [newline]"
proof -
  let ?issue' = "(issue loop)\<lparr>acceptanceCriteria :=
                           (acceptanceCriteria (issue loop))[nat index :=
                              (acceptanceCriteria (issue loop) ! nat index)\<lparr>
                                 completed := True,
                                 completedBy := Some operator,
                                 completedAt := Some now1\<rparr>]\<rparr>"
  let ?upd = "\<lambda>l. if loop_id l = lid then l\<lparr>issue := ?issue'\<rparr> else l"
  have m: "update_first (\<lambda>l. loop_id l = lid) (\<lambda>l. l\<lparr>issue := ?issue'\<rparr>) loops = map ?upd loops"
    using ids found by (rule update_first_distinct)
  have u: "updateLoop_issue (map ?upd loops) lid ?issue' = map ?upd loops"
    by (simp add: updateLoop_issue_def)
  have r: "toggleCriterion root now1 now2 loops fs lid index =
      (map ?upd loops,
       appendLog root now2 fs lid
         \<lparr>new_type = ''system'',
          new_content = ''Criterion '' @ show_nat (nat index + 1) @
                                '' marked complete by operator''\<rparr>)"
    using found lower upper incomplete
    by (simp add: toggleCriterion_def Let_def m u del: show_nat.simps)
  have f: "find (\<lambda>l. loop_id l = lid) (map ?upd loops) =
      map_option (\<lambda>l. l\<lparr>issue := ?issue'\<rparr>) (find (\<lambda>l. loop_id l = lid) loops)"
    by (rule find_map_same_key) simp
  have s: "map status (map ?upd loops) = map status loops"
    by (induction loops) auto
  have e: "map endedAt (map ?upd loops) = map endedAt loops"
    by (induction loops) auto
  have l: "file_content (appendLog root now2 fs lid
         \<lparr>new_type = ''system'',
          new_content = ''Criterion '' @ show_nat (nat index + 1) @
                                '' marked complete by operator''\<rparr>) (getLogPath root lid) =
      file_content fs (getLogPath root lid) @
           stringify \<lparr>timestamp = now2, loopId = lid, etype = ''system'',
                      content = ''Criterion '' @ show_nat (nat index + 1) @
                                '' marked complete by operator''\<rparr> @ [newline]"
    by (simp add: appendLog_def Let_def ensureLoopDir_def file_content_def del: show_nat.simps)
  show ?thesis unfolding r using f s e l found by (simp del: show_nat.simps)
qed

theorem toggleCriterion_complete_witness:
  "map status
     (fst (toggleCriterion ''data'' ''2026-01-01T00:00:01.000Z'' ''2026-01-01T00:00:02.000Z''
        [\<lparr>loop_id = ''L'', loop_agent = ''claude'', status = Running,
          issue = \<lparr>issue_url = ''https://github.com/o/r/issues/7'', issue_number = 7,
                    issue_title = ''Task'', issue_body = ''Body'', issue_repo = ''o/r'',
                    acceptanceCriteria =
                      [\<lparr>ctext = ''A'', completed = True, completedBy = Some agent, completedAt = Some ''t''\<rparr>,
                       \<lparr>ctext = ''B'', completed = False, completedBy = None, completedAt = None\<rparr>,
                       \<lparr>ctext = ''C'', completed = True, completedBy = Some agent, completedAt = Some ''t''\<rparr>],
                    originalAcceptanceCriteria = []\<rparr>,
          repoRoot = ''/work'', skipPermissions = False, sessionId = None,
          startedAt = Some ''2026-01-01T00:00:00.000Z'', endedAt = None, pausedAt = None,
          pausedFromPreviousSession = False, issueClosed = False, loop_error = None,
          pid = Some 42\<rparr>]
        \<lparr>dirs = {}, files = Map.empty\<rparr> ''L'' 1)) = [Running] \<and>
   map (\<lambda>l. map completedBy (acceptanceCriteria (issue l)))
     (fst (toggleCriterion ''data'' ''2026-01-01T00:00:01.000Z'' ''2026-01-01T00:00:02.000Z''
        [\<lparr>loop_id = ''L'', loop_agent = ''claude'', status = Running,
          issue = \<lparr>issue_url = ''https://github.com/o/r/issues/7'', issue_number = 7,
                    issue_title = ''Task'', issue_body = ''Body'', issue_repo = ''o/r'',
                    acceptanceCriteria =
                      [\<lparr>ctext = ''A'', completed = True, completedBy = Some agent, completedAt = Some ''t''\<rparr>,
                       \<lparr>ctext = ''B'', completed = False, completedBy = None, completedAt = None\<rparr>,
                       \<lparr>ctext = ''C'', completed = True, completedBy = Some agent, completedAt = Some ''t''\<rparr>],
                    originalAcceptanceCriteria = []\<rparr>,
          repoRoot = ''/work'', skipPermissions = False, sessionId = None,
          startedAt = Some ''2026-01-01T00:00:00.000Z'', endedAt = None, pausedAt = None,
          pausedFromPreviousSession = False, issueClosed = False, loop_error = None,
          pid = Some 42\<rparr>]
        \<lparr>dirs = {}, files = Map.empty\<rparr> ''L'' 1)) =
     [[Some agent, Some operator, Some agent]]"
proof -
  let ?loop = "\<lparr>loop_id = ''L'', loop_agent = ''claude'', status = Running,
          issue = \<lparr>issue_url = ''https://github.com/o/r/issues/7'', issue_number = 7,
                    issue_title = ''Task'', issue_body = ''Body'', issue_repo = ''o/r'',
                    acceptanceCriteria =
                      [\<lparr>ctext = ''A'', completed = True, completedBy = Some agent, completedAt = Some ''t''\<rparr>,
                       \<lparr>ctext = ''B'', completed = False, completedBy = None, completedAt = None\<rparr>,
                       \<lparr>ctext = ''C'', completed = True, completedBy = Some agent, completedAt = Some ''t''\<rparr>],
                    originalAcceptanceCriteria = []\<rparr>,
          repoRoot = ''/work'', skipPermissions = False, sessionId = None,
          startedAt = Some ''2026-01-01T00:00:00.000Z'', endedAt = None, pausedAt = None,
          pausedFromPreviousSession = False, issueClosed = False, loop_error = None,
          pid = Some 42\<rparr>"
  have h1: "find (\<lambda>l. loop_id l = ''L'') [?loop] = Some ?loop" by simp
  have h2: "distinct (map loop_id [?loop])" by simp
  have h3: "(0::int) \<le> 1" by simp
  have h4: "(1::int) < int (length (acceptanceCriteria (issue ?loop)))" by simp
  have h5: "\<not> completed (acceptanceCriteria (issue ?loop) ! nat 1)" by simp
  from toggleCriterion_complete [OF h1 h2 h3 h4 h5, of "''data''" "''2026-01-01T00:00:01.000Z''"
      "''2026-01-01T00:00:02.000Z''" "\<lparr>dirs = {}, files = Map.empty\<rparr>"]
  have "fst (toggleCriterion ''data'' ''2026-01-01T00:00:01.000Z'' ''2026-01-01T00:00:02.000Z''
        [?loop] \<lparr>dirs = {}, files = Map.empty\<rparr> ''L'' 1) =
      [?loop\<lparr>issue := (issue ?loop)\<lparr>acceptanceCriteria :=
                           (acceptanceCriteria (issue ?loop))[nat 1 :=
                              (acceptanceCriteria (issue ?loop) ! nat 1)\<lparr>
                                 completed := True,
                                 completedBy := Some operator,
                                 completedAt := Some ''2026-01-01T00:00:01.000Z''\<rparr>]\<rparr>\<rparr>]"
    by simp
  then show ?thesis by simp
qed

subsection \<open>The resume prompt\<close>

lemma numbered_nth:
  "k < length cs \<Longrightarrow> numbered cs ! k = show_nat (k + 1) @ ''. '' @ cs ! k"
  by (simp add: numbered_def del: show_nat.simps)

text \<open>
  C1.  The resume prompt numbers the criteria it is given from 1, by their position in the
  list of remaining criteria.  With the stored criteria \<open>A\<close> (complete) and \<open>B\<close>
  (incomplete), the only remaining criterion \<open>B\<close> is item 1 of the resume prompt, while
  it is the second criterion of the stored list and of the initial prompt.
\<close>

theorem buildResumePrompt_renumbers:
  "buildResumePrompt ''Iterations completed: 3''
     (remaining_criteria
        [\<lparr>ctext = ''A'', completed = True, completedBy = Some agent, completedAt = Some ''t''\<rparr>,
         \<lparr>ctext = ''B'', completed = False, completedBy = None, completedAt = None\<rparr>]) =
   ''RESUMING FROM PAUSE (previous session)\<newline>\<newline>## Summary of work done so far:\<newline>Iterations completed: 3\<newline>\<newline>## Remaining acceptance criteria:\<newline>1. B\<newline>\<newline>Please continue working on this task. Review the summary above and pick up where you left off. When each criterion is complete, emit <criterion-complete>N</criterion-complete>. When all criteria are done, emit <promise>TASK COMPLETE</promise>.'' \<and>
   buildPromptFromIssue
     \<lparr>issue_url = ''u'', issue_number = 7, issue_title = ''T'', issue_body = ''b'',
      issue_repo = ''o/r'',
      acceptanceCriteria =
        [\<lparr>ctext = ''A'', completed = True, completedBy = Some agent, completedAt = Some ''t''\<rparr>,
         \<lparr>ctext = ''B'', completed = False, completedBy = None, completedAt = None\<rparr>],
      originalAcceptanceCriteria = []\<rparr> =
   ''# Task: T\<newline>\<newline>GitHub Issue: u\<newline>\<newline>## Acceptance Criteria\<newline>- [x] A\<newline>- [ ] B\<newline>\<newline>## Issue Description\<newline>b\<newline>\<newline>## Instructions\<newline>Complete all acceptance criteria above.\<newline>Mark criteria as you finish them with:\<newline>- <criterion-complete>N</criterion-complete>\<newline>- <criterion-incomplete>N</criterion-incomplete> (if you need to regress)\<newline>Criteria are 1-indexed based on the list above.\<newline>When all criteria are complete, output the exact tag: <promise>TASK COMPLETE</promise>\<newline>''"
  by code_simp

end
